theory Spec2Isabelle
  imports Complex_Main "HOL-Library.AList" "HOL-Library.Sublist"
begin

section \<open>The book API of \<open>backend/index.js\<close>\<close>

text \<open>
  The program is an Express application with five routes over one MongoDB collection,
  \<open>books\<close>. Each handler reads the request, builds a filter or a document, makes one
  call on the collection and sends the driver's result back. The handlers are embedded
  here as functions on an explicit store; a rejected promise (nothing in the program
  catches one) is the \<open>Inl\<close> of a sum.

  The collection's operations belong to the \<open>mongodb\<close> package and its server, not to the
  repository. They are modelled below from the way MongoDB documents them (server 5.0 or
  later, which the client's \<open>ServerApiVersion.v1\<close> asks for), for a store that is
  reachable.

  A handler takes the store and returns its outcome with the store afterwards:
  \<open>Inr\<close> the value sent to the client, \<open>Inl\<close> the error of the rejected promise.
\<close>

subsection \<open>Configuration\<close>

text \<open>\<open>process.env\<close>: a variable is unset or holds a string.\<close>

type_synonym env = "string \<rightharpoonup> string"

text \<open>
  \<open>const port = process.env.PORT || 5000\<close>: the left operand when it is truthy (a
  non-empty string), else the number.
\<close>

datatype port_value = PortString string | PortNumber nat

definition port :: "env \<Rightarrow> port_value" where
  "port e = (case e ''PORT'' of
               None \<Rightarrow> PortNumber 5000
             | Some p \<Rightarrow> if p \<noteq> [] then PortString p else PortNumber 5000)"

text \<open>\<open>const uri = "mongodb://localhost:27017"\<close>, whatever the environment holds.\<close>

definition uri :: "env \<Rightarrow> string" where
  "uri e = ''mongodb://localhost:27017''"

subsection \<open>Values, documents, identifiers\<close>

text \<open>
  An ObjectId is twelve bytes. A value is what a JSON body can hold, or an ObjectId; a
  number is only stored and compared, never computed with. An embedded object keeps the
  order of its fields, as BSON does.
\<close>

type_synonym oid = "nat list"

datatype val =
    Null
  | Bool bool
  | Num real
  | Str string
  | Arr "val list"
  | Obj "(string \<times> val) list"
  | Oid oid

text \<open>
  \<open>req.body\<close> after \<open>express.json()\<close>: an object, its keys in the order parsed (the
  parser takes at most 100 kB of text, far less than the 16 MB a BSON document may
  hold). A stored document is a map from its top-level field names to their values (the
  server orders top-level fields itself).
\<close>

type_synonym body = "(string \<times> val) list"
type_synonym doc = "string \<rightharpoonup> val"

text \<open>
  What a handler's promise is rejected with: a \<open>BSONError\<close> thrown inside the driver
  before anything is sent, or a \<open>MongoServerError\<close> with which the server refuses a
  command.
\<close>

datatype error = BSONError | MongoServerError

text \<open>
  \<open>new ObjectId(id)\<close> on a string: twenty-four hexadecimal digits, of either case, give
  the twelve bytes; any other string throws. The theorems below use only whether the
  constructor returns or throws.
\<close>

definition hex_val :: "char \<Rightarrow> nat option" where
  "hex_val c =
     (let n = (of_char c :: nat) in
      if 48 \<le> n \<and> n \<le> 57 then Some (n - 48)
      else if 97 \<le> n \<and> n \<le> 102 then Some (n - 87)
      else if 65 \<le> n \<and> n \<le> 70 then Some (n - 55)
      else None)"

fun hex_bytes :: "string \<Rightarrow> nat list option" where
  "hex_bytes [] = Some []"
| "hex_bytes [c] = None"
| "hex_bytes (a # b # cs) =
     (case hex_val a of None \<Rightarrow> None
      | Some h \<Rightarrow> (case hex_val b of None \<Rightarrow> None
      | Some l \<Rightarrow> (case hex_bytes cs of None \<Rightarrow> None
      | Some bs \<Rightarrow> Some ((16 * h + l) # bs))))"

definition ObjectId :: "string \<Rightarrow> error + oid" where
  "ObjectId s =
     (if length s = 24
      then (case hex_bytes s of Some bs \<Rightarrow> Inr bs | None \<Rightarrow> Inl BSONError)
      else Inl BSONError)"

subsection \<open>The collection\<close>

text \<open>
  The store is the collection \<open>books\<close>, in its natural order, with the server's limit on
  the nesting of a document (a server setting; MongoDB documents 100 levels), together
  with a record of the calls made on the collection, kept so that "no storage operation
  ran" can be stated.
\<close>

datatype call = InsertOne | Find | FindOne | UpdateOne | DeleteOne

record store =
  books :: "doc list"
  calls :: "call list"
  max_depth :: nat

definition logged :: "call \<Rightarrow> store \<Rightarrow> store" where
  "logged c s = s\<lparr>calls := calls s @ [c]\<rparr>"

text \<open>
  A filter is a list of conditions \<open>field: value\<close>. MongoDB's equality condition holds
  when the field has that value, or is an array with that value among its elements; a
  missing field equals only \<open>null\<close>.
\<close>

type_synonym filter = "(string \<times> val) list"

definition field_eq :: "doc \<Rightarrow> string \<Rightarrow> val \<Rightarrow> bool" where
  "field_eq d k q =
     (case d k of
        None \<Rightarrow> q = Null
      | Some (Arr xs) \<Rightarrow> q = Arr xs \<or> q \<in> set xs
      | Some v \<Rightarrow> v = q)"

definition matches :: "filter \<Rightarrow> doc \<Rightarrow> bool" where
  "matches flt d = list_all (\<lambda>(k, q). field_eq d k q) flt"

text \<open>The driver's result objects (each also carries \<open>acknowledged: true\<close>).\<close>

record insert_result =
  insertedId :: val

record update_result =
  matchedCount :: nat
  modifiedCount :: nat
  upsertedCount :: nat
  upsertedId :: "val option"

record delete_result =
  deletedCount :: nat

text \<open>
  What can be stored. The driver's serialiser throws on a key that contains a NUL byte, at
  any depth. The server counts the levels of a value: a scalar has none, an array or an
  embedded document one more than the deepest of its members.
\<close>

fun nul_free :: "val \<Rightarrow> bool" where
  "nul_free (Arr xs) = list_all nul_free xs"
| "nul_free (Obj kvs) = list_all (\<lambda>kv. CHR 0x00 \<notin> set (fst kv) \<and> nul_free (snd kv)) kvs"
| "nul_free v = True"

fun val_depth :: "val \<Rightarrow> nat" where
  "val_depth (Arr xs) = Suc (fold max (map val_depth xs) 0)"
| "val_depth (Obj kvs) = Suc (fold max (map (\<lambda>kv. val_depth (snd kv)) kvs) 0)"
| "val_depth v = 0"

text \<open>
  \<open>insertOne(doc)\<close>. The driver gives a document whose \<open>_id\<close> is missing or \<open>null\<close> the
  key \<open>pk\<close> that its key factory generates for the call; any other \<open>_id\<close> is kept. Then
  it serialises the document. The server refuses a document nested beyond its limit, an
  array as \<open>_id\<close>, and an \<open>_id\<close> that a stored document has.
\<close>

definition is_array :: "val \<Rightarrow> bool" where
  "is_array v = (case v of Arr xs \<Rightarrow> True | _ \<Rightarrow> False)"

definition insertOne :: "oid \<Rightarrow> store \<Rightarrow> body \<Rightarrow> (error + insert_result) \<times> store" where
  "insertOne pk s d =
     (let s' = logged InsertOne s;
          i = (case map_of d ''_id'' of None \<Rightarrow> Oid pk | Some Null \<Rightarrow> Oid pk | Some v \<Rightarrow> v)
      in if \<not> nul_free (Obj d) then (Inl BSONError, s')
         else if max_depth s < val_depth (Obj d) then (Inl MongoServerError, s')
         else if is_array i then (Inl MongoServerError, s')
         else if list_ex (\<lambda>e. e ''_id'' = Some i) (books s) then (Inl MongoServerError, s')
         else (Inr \<lparr>insertedId = i\<rparr>, s'\<lparr>books := books s @ [(map_of d)(''_id'' \<mapsto> i)]\<rparr>))"

text \<open>\<open>find(filter).toArray()\<close> and \<open>findOne(filter)\<close>.\<close>

definition find_docs :: "store \<Rightarrow> filter \<Rightarrow> (error + doc list) \<times> store" where
  "find_docs s flt = (Inr (filter (matches flt) (books s)), logged Find s)"

definition findOne :: "store \<Rightarrow> filter \<Rightarrow> (error + doc option) \<times> store" where
  "findOne s flt = (Inr (List.find (matches flt) (books s)), logged FindOne s)"

text \<open>\<open>deleteOne(filter)\<close> removes the first document that matches.\<close>

fun delete_first :: "('a \<Rightarrow> bool) \<Rightarrow> 'a list \<Rightarrow> 'a list" where
  "delete_first P [] = []"
| "delete_first P (x # xs) = (if P x then xs else x # delete_first P xs)"

definition deleteOne :: "store \<Rightarrow> filter \<Rightarrow> (error + delete_result) \<times> store" where
  "deleteOne s flt =
     (let s' = logged DeleteOne s
      in case List.find (matches flt) (books s) of
           None \<Rightarrow> (Inr \<lparr>deletedCount = 0\<rparr>, s')
         | Some d \<Rightarrow> (Inr \<lparr>deletedCount = 1\<rparr>,
                      s'\<lparr>books := delete_first (matches flt) (books s)\<rparr>))"

subsection \<open>Update paths\<close>

text \<open>
  A key of \<open>$set\<close> is a path in dot notation: \<open>field_ref\<close> splits it at the dots (the
  empty key has no part).
\<close>

fun split_dots :: "string \<Rightarrow> string list" where
  "split_dots [] = [[]]"
| "split_dots (c # cs) =
     (if c = CHR ''.'' then [] # split_dots cs
      else (c # hd (split_dots cs)) # tl (split_dots cs))"

definition field_ref :: "string \<Rightarrow> string list" where
  "field_ref k = (if k = [] then [] else split_dots k)"

text \<open>
  The parts the server reads as operators: \<open>$\<close> (the array element the query matched;
  the queries of this program match none), \<open>$[]\<close> (every element of an array) and
  \<open>$[name]\<close> (the elements an array filter selects; this program passes no array
  filter). A path is refused when it has no part, an empty part, a \<open>$\<close> or a \<open>$[name]\<close>.
\<close>

definition dollar :: "string \<Rightarrow> bool" where
  "dollar p = (case p of [] \<Rightarrow> False | c # cs \<Rightarrow> c = CHR ''$'')"

definition array_filter :: "string \<Rightarrow> bool" where
  "array_filter p = (3 < length p \<and> take 2 p = ''$['' \<and> last p = CHR '']'')"

definition path_ok :: "string list \<Rightarrow> bool" where
  "path_ok ps = (ps \<noteq> [] \<and> list_all (\<lambda>p. p \<noteq> [] \<and> p \<noteq> ''$'' \<and> \<not> array_filter p) ps)"

text \<open>
  In an array a part names an element when it is a decimal number that fits an unsigned
  32-bit integer.
\<close>

definition is_digit :: "char \<Rightarrow> bool" where
  "is_digit c = (48 \<le> (of_char c :: nat) \<and> (of_char c :: nat) \<le> 57)"

definition digits_value :: "string \<Rightarrow> nat" where
  "digits_value p = foldl (\<lambda>n c. 10 * n + (of_char c - 48)) 0 p"

definition array_index :: "string \<Rightarrow> nat option" where
  "array_index p =
     (if p \<noteq> [] \<and> list_all is_digit p \<and> digits_value p < 2 ^ 32
      then Some (digits_value p) else None)"

text \<open>
  Where the path leaves the document, the rest of it is created as embedded documents
  (never arrays), except that \<open>$[]\<close> needs an array to be there.
\<close>

fun build :: "string list \<Rightarrow> val \<Rightarrow> error + val" where
  "build [] v = Inr v"
| "build (p # ps) v =
     (if p = ''$[]'' then Inl MongoServerError
      else case build ps v of Inl e \<Rightarrow> Inl e | Inr y \<Rightarrow> Inr (Obj [(p, y)]))"

fun all_ok :: "(error + 'a) list \<Rightarrow> error + 'a list" where
  "all_ok [] = Inr []"
| "all_ok (r # rs) =
     (case r of Inl e \<Rightarrow> Inl e
      | Inr y \<Rightarrow> (case all_ok rs of Inl e \<Rightarrow> Inl e | Inr ys \<Rightarrow> Inr (y # ys)))"

text \<open>
  Setting the value at a path inside a value. An embedded document is entered by field
  name, a new field going to its end; an array by index, padded with \<open>null\<close> up to a new
  index (at most 1500000 of them), or by \<open>$[]\<close> for all its elements; nothing else can
  be entered.
\<close>

fun set_at :: "string list \<Rightarrow> val \<Rightarrow> val \<Rightarrow> error + val" where
  "set_at [] v x = Inr v"
| "set_at (p # ps) v (Obj kvs) =
     (if p = ''$[]'' then Inl MongoServerError
      else case map_of kvs p of
             None \<Rightarrow> (case build ps v of Inl e \<Rightarrow> Inl e | Inr y \<Rightarrow> Inr (Obj (kvs @ [(p, y)])))
           | Some x \<Rightarrow> (case set_at ps v x of
                          Inl e \<Rightarrow> Inl e
                        | Inr y \<Rightarrow> Inr (Obj (AList.update p y kvs))))"
| "set_at (p # ps) v (Arr xs) =
     (if p = ''$[]''
      then (case all_ok (map (set_at ps v) xs) of Inl e \<Rightarrow> Inl e | Inr ys \<Rightarrow> Inr (Arr ys))
      else case array_index p of
             None \<Rightarrow> Inl MongoServerError
           | Some k \<Rightarrow>
               if k < length xs
               then (case set_at ps v (xs ! k) of
                       Inl e \<Rightarrow> Inl e
                     | Inr y \<Rightarrow> Inr (Arr (xs[k := y])))
               else if 1500000 < k - length xs then Inl MongoServerError
               else (case build ps v of
                       Inl e \<Rightarrow> Inl e
                     | Inr y \<Rightarrow> Inr (Arr (xs @ replicate (k - length xs) Null @ [y]))))"
| "set_at (p # ps) v x = Inl MongoServerError"

text \<open>
  Setting the value at a path of a document, which is no array. A top-level field whose
  name starts with a dollar sign can be neither created nor replaced by an update.
\<close>

definition set_path :: "doc \<Rightarrow> string list \<Rightarrow> val \<Rightarrow> error + doc" where
  "set_path d ps v =
     (case ps of
        [] \<Rightarrow> Inl MongoServerError
      | p # qs \<Rightarrow>
          if p = ''$[]'' then Inl MongoServerError
          else
          (case d p of
             None \<Rightarrow>
               if dollar p then Inl MongoServerError
               else (case build qs v of Inl e \<Rightarrow> Inl e | Inr y \<Rightarrow> Inr (d(p \<mapsto> y)))
           | Some x \<Rightarrow>
               if qs = [] \<and> dollar p then Inl MongoServerError
               else (case set_at qs v x of Inl e \<Rightarrow> Inl e | Inr y \<Rightarrow> Inr (d(p \<mapsto> y)))))"

fun set_paths :: "doc \<Rightarrow> body \<Rightarrow> error + doc" where
  "set_paths d [] = Inr d"
| "set_paths d ((k, v) # upd) =
     (case set_path d (field_ref k) v of Inl e \<Rightarrow> Inl e | Inr d' \<Rightarrow> set_paths d' upd)"

text \<open>
  Two keys of one \<open>$set\<close> conflict when the path of one begins with the path of the
  other.
\<close>

fun conflicting :: "string list list \<Rightarrow> bool" where
  "conflicting [] = False"
| "conflicting (p # ps) = (list_ex (\<lambda>q. prefix p q \<or> prefix q p) ps \<or> conflicting ps)"

text \<open>
  \<open>$set\<close> on a document: every path must be acceptable, no two may conflict, no value
  may end up deeper than the limit; then the values are set, and the \<open>_id\<close> of the
  document must be what it was. An empty \<open>$set\<close> changes nothing.
\<close>

definition set_fields :: "nat \<Rightarrow> doc \<Rightarrow> body \<Rightarrow> error + doc" where
  "set_fields limit d upd =
     (if \<not> list_all (\<lambda>kv. path_ok (field_ref (fst kv))) upd then Inl MongoServerError
      else if conflicting (map (\<lambda>kv. field_ref (fst kv)) upd) then Inl MongoServerError
      else if \<not> list_all (\<lambda>kv. length (field_ref (fst kv)) + val_depth (snd kv) \<le> limit) upd
      then Inl MongoServerError
      else case set_paths d upd of
             Inl e \<Rightarrow> Inl e
           | Inr d' \<Rightarrow> if d' ''_id'' = d ''_id'' then Inr d' else Inl MongoServerError)"

text \<open>
  \<open>updateOne(filter, {$set: upd}, {upsert})\<close>. The driver serialises the update first.
  The server updates the first document that matches. When none matches and \<open>upsert\<close>
  is set, the document built from the filter's conditions is updated and inserted (the
  filters of this program always fix \<open>_id\<close>).
\<close>

fun replace_first :: "('a \<Rightarrow> bool) \<Rightarrow> 'a \<Rightarrow> 'a list \<Rightarrow> 'a list" where
  "replace_first P y [] = []"
| "replace_first P y (x # xs) = (if P x then y # xs else x # replace_first P y xs)"

definition updateOne ::
  "store \<Rightarrow> filter \<Rightarrow> body \<Rightarrow> bool \<Rightarrow> (error + update_result) \<times> store" where
  "updateOne s flt upd upsert =
     (let s' = logged UpdateOne s
      in if \<not> nul_free (Obj upd) then (Inl BSONError, s')
         else case List.find (matches flt) (books s) of
           Some d \<Rightarrow>
             (case set_fields (max_depth s) d upd of
                Inl e \<Rightarrow> (Inl e, s')
              | Inr d' \<Rightarrow>
                  (Inr \<lparr>matchedCount = 1, modifiedCount = (if d' = d then 0 else 1),
                        upsertedCount = 0, upsertedId = None\<rparr>,
                   s'\<lparr>books := replace_first (matches flt) d' (books s)\<rparr>))
         | None \<Rightarrow>
             if upsert
             then (case set_fields (max_depth s) (map_of flt) upd of
                     Inl e \<Rightarrow> (Inl e, s')
                   | Inr d' \<Rightarrow>
                       (Inr \<lparr>matchedCount = 0, modifiedCount = 0,
                             upsertedCount = 1, upsertedId = d' ''_id''\<rparr>,
                        s'\<lparr>books := books s @ [d']\<rparr>))
             else (Inr \<lparr>matchedCount = 0, modifiedCount = 0,
                        upsertedCount = 0, upsertedId = None\<rparr>, s'))"



text \<open>
  The paths that name a place in a document: acceptable, not starting with a dollar
  sign, without \<open>$[]\<close>. \<open>nest\<close> is the value that the rest of such a path creates.
\<close>

definition plain_path :: "string list \<Rightarrow> bool" where
  "plain_path ps = (path_ok ps \<and> \<not> dollar (hd ps) \<and> list_all (\<lambda>p. p \<noteq> ''$[]'') ps)"






text \<open>
  The server's invariant on a collection: every document has an \<open>_id\<close>, no \<open>_id\<close> is an
  array, and no two documents share one.
\<close>

definition unique_ids :: "doc list \<Rightarrow> bool" where
  "unique_ids xs =
     (list_all (\<lambda>d. case d ''_id'' of None \<Rightarrow> False | Some i \<Rightarrow> \<not> is_array i) xs
      \<and> distinct (map (\<lambda>d. d ''_id'') xs))"

definition wf_store :: "store \<Rightarrow> bool" where
  "wf_store s = unique_ids (books s)"

subsection \<open>The route handlers\<close>

text \<open>
  \<open>POST /upload-book\<close>: \<open>insertOne(req.body)\<close>.
\<close>

definition upload_book :: "oid \<Rightarrow> store \<Rightarrow> body \<Rightarrow> (error + insert_result) \<times> store" where
  "upload_book pk s data = insertOne pk s data"

text \<open>
  \<open>GET /all-books\<close>: the query is \<open>{category: req.query.category}\<close> when the parameter is
  truthy, else \<open>{}\<close>. The parameter is absent or one string (Express turns a repeated or
  bracketed parameter into an array or an object; those are not modelled).
\<close>

definition all_books :: "store \<Rightarrow> string option \<Rightarrow> (error + doc list) \<times> store" where
  "all_books s category =
     (let query = (case category of
                     None \<Rightarrow> []
                   | Some c \<Rightarrow> if c \<noteq> [] then [(''category'', Str c)] else [])
      in find_docs s query)"

text \<open>
  \<open>PATCH /book/:id\<close> (\<open>ident\<close> is \<open>req.params.id\<close>): the filter is built first, and
  \<open>new ObjectId(id)\<close> may throw; then
  \<open>updateOne(filter, {$set: {...req.body}}, {upsert: true})\<close>.
\<close>

definition patch_book ::
  "store \<Rightarrow> string \<Rightarrow> body \<Rightarrow> (error + update_result) \<times> store" where
  "patch_book s ident updateBookData =
     (case ObjectId ident of
        Inl e \<Rightarrow> (Inl e, s)
      | Inr oid \<Rightarrow> updateOne s [(''_id'', Oid oid)] updateBookData True)"

text \<open>\<open>DELETE /book/:id\<close>.\<close>

definition delete_book :: "store \<Rightarrow> string \<Rightarrow> (error + delete_result) \<times> store" where
  "delete_book s ident =
     (case ObjectId ident of
        Inl e \<Rightarrow> (Inl e, s)
      | Inr oid \<Rightarrow> deleteOne s [(''_id'', Oid oid)])"

text \<open>\<open>GET /book/:id\<close>.\<close>

definition get_book :: "store \<Rightarrow> string \<Rightarrow> (error + doc option) \<times> store" where
  "get_book s ident =
     (case ObjectId ident of
        Inl e \<Rightarrow> (Inl e, s)
      | Inr oid \<Rightarrow> findOne s [(''_id'', Oid oid)])"

subsection \<open>Example data\<close>

text \<open>
  Two identifiers with their path parameters (\<open>dune_hex\<close>, \<open>emma_hex\<close>), a stored book,
  a one-book store, and a book whose \<open>category\<close> is an array; they are used where a
  property is evaluated at a concrete input. The stores have the documented limit of
  100 levels.
\<close>

definition dune_hex :: string where
  "dune_hex = ''507f1f77bcf86cd799439011''"

definition dune_id :: oid where
  "dune_id = [80, 127, 31, 119, 188, 248, 108, 215, 153, 67, 144, 17]"

definition dune :: doc where
  "dune = [''_id'' \<mapsto> Oid dune_id, ''title'' \<mapsto> Str ''Dune'', ''category'' \<mapsto> Str ''scifi'']"

definition library :: store where
  "library = \<lparr>books = [dune], calls = [], max_depth = 100\<rparr>"

definition empty_store :: store where
  "empty_store = \<lparr>books = [], calls = [], max_depth = 100\<rparr>"

definition emma_hex :: string where
  "emma_hex = ''65A1b2c3d4e5f60718293a4b''"

definition emma_id :: oid where
  "emma_id = [101, 161, 178, 195, 212, 229, 246, 7, 24, 41, 58, 75]"

definition anthology :: doc where
  "anthology = [''_id'' \<mapsto> Oid emma_id, ''category'' \<mapsto> Arr [Str ''scifi'', Str ''classic'']]"

definition shelf :: store where
  "shelf = \<lparr>books = [anthology], calls = [], max_depth = 100\<rparr>"

text \<open>
  The store after \<open>POST /upload-book\<close> of a body that brings its own \<open>_id\<close>, the string
  \<open>dune_hex\<close>; and what the records of a store hold in one field, in stored order.
\<close>

definition client_store :: store where
  "client_store =
     snd (upload_book emma_id empty_store [(''_id'', Str dune_hex), (''title'', Str ''Dune'')])"

definition stored_field :: "string \<Rightarrow> store \<Rightarrow> val option list" where
  "stored_field k s = map (\<lambda>d. d k) (books s)"



text \<open>
  The selection that claim C2 words: the documents whose \<open>category\<close> is the string \<open>x\<close>
  itself. It is compared with what \<open>all_books\<close> returns.
\<close>

definition spec_category_equals :: "string \<Rightarrow> doc \<Rightarrow> bool" where
  "spec_category_equals x d = (d ''category'' = Some (Str x))"

section \<open>Auxiliary facts\<close>

subsection \<open>Filters on \<open>_id\<close>\<close>

lemma matches_id [simp]: "matches [(k, q)] = (\<lambda>d. field_eq d k q)"
  by (rule ext) (simp add: matches_def)

lemma matches_nil [simp]: "matches [] d"
  by (simp add: matches_def)

lemma books_logged [simp]: "books (logged c s) = books s"
  by (simp add: logged_def)

lemma find_None_iff: "List.find P xs = None \<longleftrightarrow> (\<forall>x\<in>set xs. \<not> P x)"
  by (induction xs) auto


lemma field_eq_id:
  "d ''_id'' = Some i \<Longrightarrow> \<not> is_array i \<Longrightarrow> field_eq d ''_id'' q \<longleftrightarrow> i = q"
  by (auto simp: field_eq_def is_array_def split: val.splits)

lemma unique_ids_Cons:
  "unique_ids (x # xs) \<longleftrightarrow> (\<exists>i. x ''_id'' = Some i \<and> \<not> is_array i) \<and> x ''_id'' \<notin> (\<lambda>d. d ''_id'') ` set xs \<and> unique_ids xs"
  by (auto simp: unique_ids_def split: option.splits)

lemma unique_ids_match:
  "unique_ids xs \<Longrightarrow> d \<in> set xs \<Longrightarrow> field_eq d ''_id'' q \<longleftrightarrow> d ''_id'' = Some q"
  by (induction xs) (auto simp: unique_ids_Cons field_eq_id)

lemma other_id_no_match:
  assumes "unique_ids (x # xs)" and "r \<in> set xs" and "r ''_id'' = Some q"
  shows "\<not> field_eq x ''_id'' q"
proof -
  from assms(1) obtain i where i: "x ''_id'' = Some i" "\<not> is_array i"
    and fresh: "x ''_id'' \<notin> (\<lambda>d. d ''_id'') ` set xs"
    by (auto simp: unique_ids_Cons)
  have "Some q \<in> (\<lambda>d. d ''_id'') ` set xs"
    using assms(2,3) by (intro image_eqI [where x = r]) simp_all
  with fresh i have "i \<noteq> q" by auto
  with i show ?thesis by (simp add: field_eq_id)
qed

lemma find_by_id:
  "unique_ids xs \<Longrightarrow> r \<in> set xs \<Longrightarrow> r ''_id'' = Some q
   \<Longrightarrow> List.find (\<lambda>d. field_eq d ''_id'' q) xs = Some r"
proof (induction xs)
  case Nil
  then show ?case by simp
next
  case (Cons x xs)
  show ?case
  proof (cases "x = r")
    case True
    with Cons.prems show ?thesis by (auto simp: unique_ids_Cons field_eq_id)
  next
    case False
    with Cons.prems have r: "r \<in> set xs" by simp
    with Cons.prems have "\<not> field_eq x ''_id'' q" by (simp add: other_id_no_match)
    with Cons r show ?thesis by (simp add: unique_ids_Cons)
  qed
qed


lemma delete_first_by_id:
  "unique_ids xs \<Longrightarrow> r \<in> set xs \<Longrightarrow> r ''_id'' = Some q
   \<Longrightarrow> delete_first (\<lambda>d. field_eq d ''_id'' q) xs = filter (\<lambda>d. d \<noteq> r) xs"
proof (induction xs)
  case Nil
  then show ?case by simp
next
  case (Cons x xs)
  show ?case
  proof (cases "x = r")
    case True
    with Cons.prems have "r ''_id'' \<notin> (\<lambda>d. d ''_id'') ` set xs" by (simp add: unique_ids_Cons)
    then have "r \<notin> set xs" by blast
    then have "filter (\<lambda>d. d \<noteq> r) xs = xs" by (induction xs) auto
    with True Cons.prems show ?thesis by (auto simp: unique_ids_Cons field_eq_id)
  next
    case False
    with Cons.prems have r: "r \<in> set xs" by simp
    with Cons.prems have "\<not> field_eq x ''_id'' q" by (simp add: other_id_no_match)
    with Cons r False show ?thesis by (simp add: unique_ids_Cons)
  qed
qed

subsection \<open>Update paths\<close>

lemma split_dots_plain: "CHR ''.'' \<notin> set k \<Longrightarrow> split_dots k = [k]"
  by (induction k) auto

lemma field_ref_plain: "k \<noteq> [] \<Longrightarrow> CHR ''.'' \<notin> set k \<Longrightarrow> field_ref k = [k]"
  by (simp add: field_ref_def split_dots_plain)














subsection \<open>The invariant is kept by every handler\<close>

lemma unique_ids_snoc:
  assumes "unique_ids xs" and "y ''_id'' = Some i" and "\<not> is_array i"
    and "\<forall>x\<in>set xs. x ''_id'' \<noteq> Some i"
  shows "unique_ids (xs @ [y])"
  using assms by (auto simp: unique_ids_def)

lemma set_delete_first: "set (delete_first P xs) \<subseteq> set xs"
  by (induction xs) auto

lemma unique_ids_delete_first: "unique_ids xs \<Longrightarrow> unique_ids (delete_first P xs)"
proof (induction xs)
  case Nil
  then show ?case by simp
next
  case (Cons x xs)
  have "(\<lambda>d. d ''_id'') ` set (delete_first P xs) \<subseteq> (\<lambda>d. d ''_id'') ` set xs"
    using set_delete_first [of P xs] by blast
  with Cons show ?case by (auto simp: unique_ids_Cons)
qed

lemma replace_first_ids:
  "List.find P xs = Some x \<Longrightarrow> y ''_id'' = x ''_id''
   \<Longrightarrow> map (\<lambda>d. d ''_id'') (replace_first P y xs) = map (\<lambda>d. d ''_id'') xs"
  by (induction xs) (auto split: if_splits)

lemma unique_ids_replace_first:
  assumes "unique_ids xs" and "List.find P xs = Some x" and "y ''_id'' = x ''_id''"
  shows "unique_ids (replace_first P y xs)"
proof -
  have ids: "map (\<lambda>d. d ''_id'') (replace_first P y xs) = map (\<lambda>d. d ''_id'') xs"
    using assms(2,3) by (rule replace_first_ids)
  have "unique_ids zs \<longleftrightarrow>
          list_all (\<lambda>i. case i of None \<Rightarrow> False | Some v \<Rightarrow> \<not> is_array v) (map (\<lambda>d. d ''_id'') zs)
          \<and> distinct (map (\<lambda>d. d ''_id'') zs)" for zs
    by (simp add: unique_ids_def list_all_iff)
  with ids assms(1) show ?thesis by simp
qed

lemma wf_empty_store: "wf_store empty_store"
  by (simp add: wf_store_def unique_ids_def empty_store_def)

lemma wf_upload_book: "wf_store s \<Longrightarrow> wf_store (snd (upload_book pk s d))"
  by (auto simp: wf_store_def upload_book_def insertOne_def Let_def list_ex_iff
      intro!: unique_ids_snoc)

lemma set_fields_keeps_id:
  "set_fields limit d upd = Inr d' \<Longrightarrow> d' ''_id'' = d ''_id''"
  by (auto simp: set_fields_def split: sum.splits if_splits)


lemma wf_all_books: "wf_store s \<Longrightarrow> wf_store (snd (all_books s c))"
  by (simp add: wf_store_def all_books_def find_docs_def)

lemma wf_get_book: "wf_store s \<Longrightarrow> wf_store (snd (get_book s i))"
  by (simp add: wf_store_def get_book_def findOne_def split: sum.splits)

lemma wf_delete_book: "wf_store s \<Longrightarrow> wf_store (snd (delete_book s i))"
  by (simp add: wf_store_def delete_book_def deleteOne_def Let_def unique_ids_delete_first
      split: sum.splits option.splits)

lemma wf_patch_book:
  assumes "wf_store s"
  shows "wf_store (snd (patch_book s i b))"
proof (cases "ObjectId i")
  case (Inl e)
  with assms show ?thesis by (simp add: patch_book_def)
next
  case (Inr oid)
  let ?P = "\<lambda>d. field_eq d ''_id'' (Oid oid)"
  from assms have u: "unique_ids (books s)" by (simp add: wf_store_def)
  show ?thesis
  proof (cases "nul_free (Obj b)")
    case False
    with Inr u show ?thesis
      by (simp add: patch_book_def updateOne_def Let_def wf_store_def)
  next
    case True
    note enc = this
    show ?thesis
  proof (cases "List.find ?P (books s)")
    case None
    then have no: "\<forall>x\<in>set (books s). x ''_id'' \<noteq> Some (Oid oid)"
      by (auto simp: find_None_iff field_eq_def)
    show ?thesis
    proof (cases "set_fields (max_depth s) (map_of [(''_id'', Oid oid)]) b")
      case (Inl e)
      with Inr None u show ?thesis
        using enc by (simp add: patch_book_def updateOne_def Let_def wf_store_def)
    next
      case (Inr d')
      then have "d' ''_id'' = Some (Oid oid)"
        using set_fields_keeps_id [OF Inr] by simp
      with u no have "unique_ids (books s @ [d'])"
        by (intro unique_ids_snoc [where i = "Oid oid"]) (simp_all add: is_array_def)
      with \<open>ObjectId i = Inr oid\<close> None Inr show ?thesis
        using enc by (simp add: patch_book_def updateOne_def Let_def wf_store_def)
    qed
  next
    case (Some d)
    show ?thesis
    proof (cases "set_fields (max_depth s) d b")
      case (Inl e)
      with Inr Some u show ?thesis
        using enc by (simp add: patch_book_def updateOne_def Let_def wf_store_def)
    next
      case (Inr d')
      then have "d' ''_id'' = d ''_id''" by (rule set_fields_keeps_id)
      with u Some have "unique_ids (replace_first ?P d' (books s))"
        by (intro unique_ids_replace_first)
      with \<open>ObjectId i = Inr oid\<close> Some Inr show ?thesis
        using enc by (simp add: patch_book_def updateOne_def Let_def wf_store_def)
    qed
  qed
  qed
qed

subsection \<open>Several paths in one update\<close>


lemma plain_path_parts: "plain_path ps \<Longrightarrow> list_all (\<lambda>p. p \<noteq> ''$[]'') ps"
  by (simp add: plain_path_def)






subsection \<open>The example data\<close>

lemma dune_oid: "ObjectId dune_hex = Inr dune_id"
  by (simp add: ObjectId_def dune_hex_def dune_id_def hex_val_def)

lemma emma_oid: "ObjectId emma_hex = Inr emma_id"
  by (simp add: ObjectId_def emma_hex_def emma_id_def hex_val_def)

lemma abc_bad: "ObjectId ''abc'' = Inl BSONError"
  by (simp add: ObjectId_def)

lemma wf_library: "wf_store library"
  by (simp add: wf_store_def unique_ids_def library_def dune_def is_array_def)

lemma emma_not_in_library: "List.find (matches [(''_id'', Oid emma_id)]) (books library) = None"
  by (simp add: library_def dune_def field_eq_def dune_id_def emma_id_def)






section \<open>Properties\<close>




text \<open>
  C2 (as amended). With no \<open>category\<close> parameter \<open>GET /all-books\<close> returns every stored
  document once, in stored order. With \<open>category = c\<close> for a non-empty string \<open>c\<close> it
  returns, in stored order, exactly the documents whose \<open>category\<close> is the string \<open>c\<close>,
  compared exactly, or an array that has the string \<open>c\<close> among its elements.
\<close>

theorem all_books_lists:
  "fst (all_books s None) = Inr (books s)
   \<and> (c \<noteq> [] \<longrightarrow>
        fst (all_books s (Some c)) =
          Inr (filter (\<lambda>d. d ''category'' = Some (Str c)
                          \<or> (\<exists>xs. d ''category'' = Some (Arr xs) \<and> Str c \<in> set xs)) (books s)))"
proof -
  have "field_eq d ''category'' (Str c) \<longleftrightarrow>
          d ''category'' = Some (Str c) \<or> (\<exists>xs. d ''category'' = Some (Arr xs) \<and> Str c \<in> set xs)" for d
    by (auto simp: field_eq_def split: option.splits val.splits)
  then show ?thesis
    by (simp add: all_books_def find_docs_def)
qed

theorem all_books_lists_witness:
  "''scifi'' \<noteq> [] \<and> fst (all_books library (Some ''scifi'')) = Inr [dune]"
  using all_books_lists [of library "''scifi''"]
  by (simp add: library_def dune_def)

text \<open>
  C2 as stated fails in two ways. The empty string is falsy, so \<open>category=\<close> lists the
  whole collection although no document has the empty category; and a document whose
  \<open>category\<close> is an array containing the string is listed although its \<open>category\<close> is not
  that string.
\<close>

theorem all_books_counterexample:
  "fst (all_books library (Some [])) = Inr [dune]
   \<and> filter (spec_category_equals []) (books library) = []
   \<and> fst (all_books shelf (Some ''scifi'')) = Inr [anthology]
   \<and> filter (spec_category_equals ''scifi'') (books shelf) = []"
  by (simp add: all_books_def find_docs_def library_def shelf_def spec_category_equals_def dune_def
      anthology_def field_eq_def)







text \<open>
  C5 (as amended). In a store with unique identifiers, for every stored record whose
  \<open>_id\<close> is the ObjectId that \<open>i\<close> denotes, \<open>DELETE /book/:id\<close> reports \<open>deletedCount = 1\<close>
  and removes the record; a following \<open>GET /book/:id\<close> for \<open>i\<close> returns \<open>null\<close>, and a
  second \<open>DELETE /book/:id\<close> for \<open>i\<close> returns a result with \<open>deletedCount = 0\<close>, not an
  error.
\<close>

theorem delete_then_get:
  assumes wf: "wf_store s" and i: "ObjectId i = Inr oid"
    and r: "r \<in> set (books s)" "r ''_id'' = Some (Oid oid)"
  shows "\<exists>s1. delete_book s i = (Inr \<lparr>deletedCount = 1\<rparr>, s1)
           \<and> books s1 = filter (\<lambda>d. d \<noteq> r) (books s)
           \<and> fst (get_book s1 i) = Inr None
           \<and> fst (delete_book (snd (get_book s1 i)) i) = Inr \<lparr>deletedCount = 0\<rparr>"
proof -
  let ?P = "\<lambda>d. field_eq d ''_id'' (Oid oid)"
  let ?s1 = "(logged DeleteOne s)\<lparr>books := filter (\<lambda>d. d \<noteq> r) (books s)\<rparr>"
  from wf have u: "unique_ids (books s)" by (simp add: wf_store_def)
  have found: "List.find ?P (books s) = Some r"
    using u r by (rule find_by_id)
  have del: "delete_first ?P (books s) = filter (\<lambda>d. d \<noteq> r) (books s)"
    using u r by (rule delete_first_by_id)
  have gone: "\<not> ?P d" if "d \<in> set (filter (\<lambda>d. d \<noteq> r) (books s))" for d
  proof
    assume m: "?P d"
    from that have d: "d \<in> set (books s)" "d \<noteq> r" by auto
    from u d(1) m have "d ''_id'' = Some (Oid oid)" by (simp add: unique_ids_match)
    with u d(1) have "List.find ?P (books s) = Some d" by (rule find_by_id)
    with found d(2) show False by simp
  qed
  then have nf: "List.find ?P (filter (\<lambda>d. d \<noteq> r) (books s)) = None"
    by (simp only: find_None_iff) blast
  have 1: "delete_book s i = (Inr \<lparr>deletedCount = 1\<rparr>, ?s1)"
    using i found del by (simp add: delete_book_def deleteOne_def Let_def)
  have 2: "get_book ?s1 i = (Inr None, logged FindOne ?s1)"
    using i nf by (simp add: get_book_def findOne_def)
  have 3: "fst (delete_book (logged FindOne ?s1) i) = Inr \<lparr>deletedCount = 0\<rparr>"
    using i nf by (simp add: delete_book_def deleteOne_def Let_def)
  from 1 2 3 show ?thesis by simp
qed

theorem delete_then_get_witness:
  "wf_store library \<and> ObjectId dune_hex = Inr dune_id \<and> dune \<in> set (books library)
   \<and> dune ''_id'' = Some (Oid dune_id)
   \<and> (\<exists>s1. delete_book library dune_hex = (Inr \<lparr>deletedCount = 1\<rparr>, s1)
           \<and> books s1 = filter (\<lambda>d. d \<noteq> dune) (books library)
           \<and> fst (get_book s1 dune_hex) = Inr None
           \<and> fst (delete_book (snd (get_book s1 dune_hex)) dune_hex) = Inr \<lparr>deletedCount = 0\<rparr>)"
proof -
  have h3: "dune \<in> set (books library)" by (simp add: library_def)
  have h4: "dune ''_id'' = Some (Oid dune_id)" by (simp add: dune_def)
  show ?thesis
    using wf_library dune_oid h3 h4 delete_then_get [OF wf_library dune_oid h3 h4]
    by (intro conjI)
qed

text \<open>
  C5 as stated fails for a record that was created with an \<open>_id\<close> of the client's own,
  here the string \<open>dune_hex\<close>: \<open>DELETE /book/:id\<close> with that string looks for an
  ObjectId, reports \<open>deletedCount = 0\<close> and leaves the record in the collection.
\<close>

theorem delete_then_get_counterexample:
  "stored_field ''_id'' client_store = [Some (Str dune_hex)]
   \<and> wf_store client_store
   \<and> fst (delete_book client_store dune_hex) = Inr \<lparr>deletedCount = 0\<rparr>
   \<and> stored_field ''_id'' (snd (delete_book client_store dune_hex)) = [Some (Str dune_hex)]"
  by (simp add: stored_field_def client_store_def upload_book_def insertOne_def Let_def
      empty_store_def is_array_def delete_book_def deleteOne_def dune_oid field_eq_def
      wf_store_def unique_ids_def)

text \<open>
  C6. When the path parameter is not an identifier the ObjectId constructor accepts,
  each of \<open>GET\<close>, \<open>PATCH\<close> and \<open>DELETE /book/:id\<close> is rejected with the constructor's
  error and leaves the store as it was: the same documents, and no call on the
  collection recorded.
\<close>

theorem malformed_id_throws:
  assumes "ObjectId i = Inl e"
  shows "get_book s i = (Inl e, s) \<and> patch_book s i b = (Inl e, s) \<and> delete_book s i = (Inl e, s)"
  using assms by (simp add: get_book_def patch_book_def delete_book_def)

theorem malformed_id_throws_witness:
  "ObjectId ''abc'' = Inl BSONError
   \<and> get_book library ''abc'' = (Inl BSONError, library)
   \<and> patch_book library ''abc'' [(''title'', Str ''Emma'')] = (Inl BSONError, library)
   \<and> delete_book library ''abc'' = (Inl BSONError, library)"
  using abc_bad malformed_id_throws [OF abc_bad] by simp

text \<open>
  C7. For every well-formed \<open>id\<close> that matches no stored record, \<open>GET /book/:id\<close> is not
  an error: it answers \<open>null\<close>, and the collection is unchanged.
\<close>

theorem get_missing_is_null:
  assumes "ObjectId i = Inr oid"
    and "List.find (matches [(''_id'', Oid oid)]) (books s) = None"
  shows "fst (get_book s i) = Inr None \<and> books (snd (get_book s i)) = books s"
  using assms by (simp add: get_book_def findOne_def)

theorem get_missing_is_null_witness:
  "ObjectId emma_hex = Inr emma_id
   \<and> List.find (matches [(''_id'', Oid emma_id)]) (books library) = None
   \<and> fst (get_book library emma_hex) = Inr None
   \<and> books (snd (get_book library emma_hex)) = books library"
  using emma_oid emma_not_in_library get_missing_is_null [OF emma_oid emma_not_in_library]
  by blast

text \<open>
  C8. The listening port comes from the environment variable \<open>PORT\<close> and is 5000 when the
  variable is unset; the connection string is the same local address in every
  environment.
\<close>

theorem port_from_env_uri_fixed:
  "(e ''PORT'' = None \<longrightarrow> port e = PortNumber 5000)
   \<and> (\<forall>p. e ''PORT'' = Some p \<and> p \<noteq> [] \<longrightarrow> port e = PortString p)
   \<and> uri e = ''mongodb://localhost:27017''"
  by (simp add: port_def uri_def)

theorem port_from_env_uri_fixed_witness:
  "Map.empty ''PORT'' = None \<and> port Map.empty = PortNumber 5000
   \<and> [''PORT'' \<mapsto> ''8080''] ''PORT'' = Some ''8080'' \<and> ''8080'' \<noteq> []
   \<and> port [''PORT'' \<mapsto> ''8080''] = PortString ''8080''
   \<and> uri [''PORT'' \<mapsto> ''8080''] = ''mongodb://localhost:27017''"
  using port_from_env_uri_fixed [of Map.empty] port_from_env_uri_fixed [of "[''PORT'' \<mapsto> ''8080'']"]
  by simp




text \<open>
  C10. \<open>GET /all-books\<close> with an empty \<open>category\<close> parameter does what it does with none:
  the same result and the same store afterwards, the result being the whole collection.
\<close>

theorem empty_category_lists_all:
  "all_books s (Some []) = all_books s None \<and> fst (all_books s (Some [])) = Inr (books s)"
  by (simp add: all_books_def find_docs_def)

theorem empty_category_lists_all_witness:
  "all_books library (Some []) = all_books library None
   \<and> fst (all_books library (Some [])) = Inr (books library)"
  by (rule empty_category_lists_all)

end
